theory Spec2Isabelle
  imports Complex_Main
begin

section \<open>Cells, errors and text\<close>

text \<open>
  The dashboard script \<^verbatim>\<open>top100.py\<close> works on a pandas DataFrame read from a
  CSV file.  A cell of a frame is a string, an integer (an \<^verbatim>\<open>int64\<close> column),
  or a float; a field that is empty in the file, or holds one of the reader's
  markers of a missing value (\<open>na_values\<close> below), is the float \<^verbatim>\<open>nan\<close>.

  A float is kept as the exact rational number its decimal text denotes: the
  program holds the binary64 number nearest to it.  Rounding is not modelled,
  so \<open>Fin q\<close> reads "the float nearest to \<open>q\<close>"; for a dyadic number with a
  short mantissa, such as \<open>25 / 2\<close>, that float is the number itself.

  Text is a list of characters, and a character is a code point below 256
  (\<open>CHR 0xA0\<close> is U+00A0); text with other code points is not covered.
\<close>

datatype pyfloat = Fin rat | PInf | NInf | NaN

datatype cell = Str string | IntV int | Flt pyfloat

text \<open>
  The exceptions of the library calls, and the stop of the script when no
  company column is found (lines 73 to 75: \<^verbatim>\<open>st.error(...); st.stop()\<close>),
  which the specification calls a schema error.
\<close>

datatype error = KeyError | AttributeError | ValueError | OverflowError | SchemaError


text \<open>
  The white space that \<^verbatim>\<open>int()\<close> and \<^verbatim>\<open>float()\<close> skip at both ends of a
  string.  They first turn every white-space character above U+007E into a
  blank, and then skip the six ASCII ones: tab, line feed, vertical tab, form
  feed, carriage return and blank.  Below 256 the characters turned into a
  blank are U+0085 and U+00A0.  (U+001C to U+001F are left as they are and
  are no white space here, although \<^verbatim>\<open>str.isspace\<close> holds for them.)  Every
  other character above U+007E is a decimal digit, of which there is none
  below 256, or makes the conversion fail.
\<close>

definition is_space :: "char \<Rightarrow> bool" where
  "is_space c =
     (c \<in> set [CHR 0x09, CHR 0x0A, CHR 0x0B, CHR 0x0C, CHR 0x0D, CHR '' '', CHR 0x85, CHR 0xA0])"

definition digit_val :: "char \<Rightarrow> int option" where
  "digit_val c =
     (let n = (of_char c :: int) in if 48 \<le> n \<and> n \<le> 57 then Some (n - 48) else None)"

definition is_digit :: "char \<Rightarrow> bool" where
  "is_digit c = (digit_val c \<noteq> None)"

text \<open>\<^verbatim>\<open>s.strip()\<close> as the two parsers do it: white space off both ends.\<close>

definition strip :: "string \<Rightarrow> string" where
  "strip s = rev (dropWhile is_space (rev (dropWhile is_space s)))"

text \<open>The value of a run of decimal digits, most significant first.\<close>

definition digits_value :: "int list \<Rightarrow> int" where
  "digits_value ds = foldl (\<lambda>a d. 10 * a + d) 0 ds"

text \<open>
  The digits of an integer literal: one digit or more, a single underscore
  allowed between two digits (\<^verbatim>\<open>1_000\<close>), none at either end.
\<close>

fun digit_run :: "string \<Rightarrow> int list option" where
  "digit_run [] = None"
| "digit_run [c] = map_option (\<lambda>d. [d]) (digit_val c)"
| "digit_run (c # c' # cs) =
     (case digit_val c of
        None \<Rightarrow> None
      | Some d \<Rightarrow>
          if c' = CHR ''_'' then map_option (Cons d) (digit_run cs)
          else map_option (Cons d) (digit_run (c' # cs)))"

text \<open>An optional sign in front of the rest: the sign's factor and the rest.\<close>

definition split_sign :: "string \<Rightarrow> int \<times> string" where
  "split_sign s =
     (case s of
        [] \<Rightarrow> (1, [])
      | c # cs \<Rightarrow>
          if c = CHR ''-'' then (- 1, cs)
          else if c = CHR ''+'' then (1, cs)
          else (1, s))"

text \<open>
  The grammar of \<^verbatim>\<open>int(s)\<close> in base ten: white space, an optional sign,
  the digits, white space.  \<open>None\<close> is text that is not an integer literal.
\<close>

definition int_literal :: "string \<Rightarrow> (int \<times> int list) option" where
  "int_literal s =
     (let (sg, body) = split_sign (strip s)
      in map_option (\<lambda>ds. (sg, ds)) (digit_run body))"

text \<open>
  \<^verbatim>\<open>int(s)\<close>: CPython refuses a literal of more than 4300 digits (the
  default of \<^verbatim>\<open>sys.set_int_max_str_digits\<close>) with the same \<^verbatim>\<open>ValueError\<close>
  as text that is no literal.
\<close>

definition max_str_digits :: int where
  "max_str_digits = 4300"

definition py_int :: "string \<Rightarrow> error + int" where
  "py_int s =
     (case int_literal s of
        None \<Rightarrow> Inl ValueError
      | Some (sg, ds) \<Rightarrow>
          if max_str_digits < int (length ds) then Inl ValueError
          else Inr (sg * digits_value ds))"

text \<open>Storing a Python integer into an \<^verbatim>\<open>int64\<close> array.\<close>

definition to_int64 :: "int \<Rightarrow> error + int" where
  "to_int64 n = (if - (2 ^ 63) \<le> n \<and> n < 2 ^ 63 then Inr n else Inl OverflowError)"


section \<open>The float cast\<close>

definition digit_of :: "char \<Rightarrow> int" where
  "digit_of c = (of_char c :: int) - 48"

definition lower_char :: "char \<Rightarrow> char" where
  "lower_char c =
     (case map_of (zip ''ABCDEFGHIJKLMNOPQRSTUVWXYZ'' ''abcdefghijklmnopqrstuvwxyz'') c of
        None \<Rightarrow> c
      | Some d \<Rightarrow> d)"

text \<open>\<^verbatim>\<open>s.lower()\<close> on ASCII text.\<close>

definition lower :: "string \<Rightarrow> string" where
  "lower s = map lower_char s"

text \<open>
  \<^verbatim>\<open>float(s)\<close> first takes the underscores out: each must stand between two
  digits.  The first argument is the character before, if any.
\<close>

fun strip_underscores :: "char option \<Rightarrow> string \<Rightarrow> string option" where
  "strip_underscores prev [] = (if prev = Some CHR ''_'' then None else Some [])"
| "strip_underscores prev (c # cs) =
     (if c = CHR ''_'' then
        (case prev of
           None \<Rightarrow> None
         | Some p \<Rightarrow> if is_digit p then strip_underscores (Some c) cs else None)
      else if prev = Some CHR ''_'' \<and> \<not> is_digit c then None
      else map_option (Cons c) (strip_underscores (Some c) cs))"

definition pow10 :: "int \<Rightarrow> rat" where
  "pow10 k = (if 0 \<le> k then 10 ^ nat k else 1 / 10 ^ nat (- k))"

text \<open>The exponent of a decimal literal: nothing, or \<^verbatim>\<open>e\<close>, a sign, digits.\<close>

definition exponent_part :: "string \<Rightarrow> int option" where
  "exponent_part r =
     (case r of
        [] \<Rightarrow> Some 0
      | c # cs \<Rightarrow>
          if c = CHR ''e'' \<or> c = CHR ''E'' then
            (let (sg, ds) = split_sign cs
             in if ds \<noteq> [] \<and> list_all is_digit ds
                then Some (sg * digits_value (map digit_of ds)) else None)
          else None)"

text \<open>
  An unsigned decimal literal: digits, a point, digits (one of the two runs
  of digits may be empty), an exponent.
\<close>

definition decimal_literal :: "string \<Rightarrow> rat option" where
  "decimal_literal u =
     (let ip = takeWhile is_digit u;
          r1 = dropWhile is_digit u;
          (fp, r2) =
            (case r1 of
               [] \<Rightarrow> ([], [])
             | c # cs \<Rightarrow>
                 if c = CHR ''.'' then (takeWhile is_digit cs, dropWhile is_digit cs)
                 else ([], r1))
      in if ip = [] \<and> fp = [] then None
         else
           (case exponent_part r2 of
              None \<Rightarrow> None
            | Some ex \<Rightarrow>
                Some (of_int (digits_value (map digit_of (ip @ fp)))
                       * pow10 (ex - int (length fp)))))"

definition inf_or_nan :: "int \<Rightarrow> string \<Rightarrow> pyfloat option" where
  "inf_or_nan sg u =
     (let l = lower u
      in if l = ''inf'' \<or> l = ''infinity'' then Some (if sg < 0 then NInf else PInf)
         else if l = ''nan'' then Some NaN
         else None)"

definition py_float :: "string \<Rightarrow> error + pyfloat" where
  "py_float s =
     (case strip_underscores None (strip s) of
        None \<Rightarrow> Inl ValueError
      | Some u \<Rightarrow>
          (let (sg, body) = split_sign u
           in case decimal_literal body of
                Some q \<Rightarrow> Inr (Fin (of_int sg * q))
              | None \<Rightarrow>
                  (case inf_or_nan sg body of
                     Some f \<Rightarrow> Inr f
                   | None \<Rightarrow> Inl ValueError)))"

section \<open>Frames\<close>

text \<open>
  A frame is what \<^verbatim>\<open>pd.read_csv\<close> delivers: the column labels in the order
  of the header (the reader makes them distinct) and the rows in the order of
  the file.  A row gives the cell under each label; labels that are not
  columns are never read, since \<open>getitem\<close> checks the label first.
\<close>

type_synonym row = "string \<Rightarrow> cell"

record dataframe =
  columns :: "string list"
  rows :: "row list"

abbreviation REVENUE :: string where
  "REVENUE \<equiv> ''Revenue (USD millions)''"

abbreviation GROWTH :: string where
  "GROWTH \<equiv> ''Revenue growth''"

abbreviation INDUSTRY :: string where
  "INDUSTRY \<equiv> ''Industry''"

abbreviation HEADQUARTERS :: string where
  "HEADQUARTERS \<equiv> ''Headquarters''"

text \<open>\<^verbatim>\<open>df[name]\<close>: the column, or \<^verbatim>\<open>KeyError\<close>.\<close>

definition getitem :: "dataframe \<Rightarrow> string \<Rightarrow> error + cell list" where
  "getitem df name =
     (if name \<in> set (columns df) then Inr (map (\<lambda>r. r name) (rows df)) else Inl KeyError)"

text \<open>
  \<^verbatim>\<open>df[name] = col\<close>, for a column as long as the frame: an existing column
  is replaced where it stands, a new one is added last.
\<close>

definition setitem :: "dataframe \<Rightarrow> string \<Rightarrow> cell list \<Rightarrow> dataframe" where
  "setitem df name col =
     df\<lparr>columns := (if name \<in> set (columns df) then columns df else columns df @ [name]),
        rows := map (\<lambda>(r, v). r(name := v)) (zip (rows df) col)\<rparr>"

definition is_str :: "cell \<Rightarrow> bool" where
  "is_str c = (case c of Str _ \<Rightarrow> True | _ \<Rightarrow> False)"

text \<open>
  The reader gives a column the \<^verbatim>\<open>object\<close> dtype when some field of it is
  not a number (or when the file has no row); its cells are then strings, and
  \<^verbatim>\<open>nan\<close> for the empty fields.  A column of numbers only, or of empty
  fields only, is an \<^verbatim>\<open>int64\<close> or \<^verbatim>\<open>float64\<close> column.
\<close>

definition object_dtype :: "cell list \<Rightarrow> bool" where
  "object_dtype col = (col = [] \<or> list_ex is_str col)"

text \<open>
  \<^verbatim>\<open>col.str.replace(ch, '', regex=True)\<close> for a pattern of one character that
  is not a regex operator (\<^verbatim>\<open>,\<close> and \<^verbatim>\<open>%\<close>): every occurrence goes.  The
  \<^verbatim>\<open>.str\<close> accessor raises \<^verbatim>\<open>AttributeError\<close> on a numeric column; a
  cell that is not a string gives \<^verbatim>\<open>nan\<close>, here \<open>None\<close>.
\<close>

definition replace_cell :: "char \<Rightarrow> cell \<Rightarrow> string option" where
  "replace_cell ch c = (case c of Str s \<Rightarrow> Some (filter (\<lambda>x. x \<noteq> ch) s) | _ \<Rightarrow> None)"

definition str_replace :: "char \<Rightarrow> cell list \<Rightarrow> error + string option list" where
  "str_replace ch col =
     (if object_dtype col then Inr (map (replace_cell ch) col) else Inl AttributeError)"

text \<open>A cast goes through the column from the top and stops at the first error.\<close>

fun cast_all :: "('a \<Rightarrow> error + 'b) \<Rightarrow> 'a list \<Rightarrow> error + 'b list" where
  "cast_all f [] = Inr []"
| "cast_all f (x # xs) =
     (case f x of
        Inl e \<Rightarrow> Inl e
      | Inr y \<Rightarrow> (case cast_all f xs of Inl e \<Rightarrow> Inl e | Inr ys \<Rightarrow> Inr (y # ys)))"

text \<open>
  \<^verbatim>\<open>.astype(int)\<close> on strings: \<^verbatim>\<open>int(s)\<close>, stored as \<^verbatim>\<open>int64\<close>;
  \<^verbatim>\<open>nan\<close> cannot be converted.
\<close>

definition int_of_cell :: "string option \<Rightarrow> error + int" where
  "int_of_cell c =
     (case c of
        None \<Rightarrow> Inl ValueError
      | Some s \<Rightarrow> (case py_int s of Inl e \<Rightarrow> Inl e | Inr n \<Rightarrow> to_int64 n))"

definition astype_int :: "string option list \<Rightarrow> error + int list" where
  "astype_int col = cast_all int_of_cell col"

text \<open>\<^verbatim>\<open>.astype(float)\<close> on strings: \<^verbatim>\<open>float(s)\<close>; \<^verbatim>\<open>nan\<close> stays.\<close>

definition float_of_cell :: "string option \<Rightarrow> error + pyfloat" where
  "float_of_cell c = (case c of None \<Rightarrow> Inr NaN | Some s \<Rightarrow> py_float s)"

definition astype_float :: "string option list \<Rightarrow> error + pyfloat list" where
  "astype_float col = cast_all float_of_cell col"

section \<open>The loader\<close>

text \<open>
  Lines 49 to 53, from the frame that \<^verbatim>\<open>pd.read_csv\<close> returned:
  \<^verbatim>\<open>
  df['Revenue (USD millions)'] = df['Revenue (USD millions)'].str.replace(',', '', regex=True).astype(int)
  df['Revenue growth'] = df['Revenue growth'].str.replace('%', '', regex=True).astype(float)
  return df
  \<close>
\<close>

definition load_data :: "dataframe \<Rightarrow> error + dataframe" where
  "load_data df =
     (case getitem df REVENUE of
        Inl e \<Rightarrow> Inl e
      | Inr revenue \<Rightarrow>
     (case str_replace CHR '','' revenue of
        Inl e \<Rightarrow> Inl e
      | Inr revenue' \<Rightarrow>
     (case astype_int revenue' of
        Inl e \<Rightarrow> Inl e
      | Inr ints \<Rightarrow>
     (let df1 = setitem df REVENUE (map IntV ints)
      in case getitem df1 GROWTH of
        Inl e \<Rightarrow> Inl e
      | Inr growth \<Rightarrow>
     (case str_replace CHR ''%'' growth of
        Inl e \<Rightarrow> Inl e
      | Inr growth' \<Rightarrow>
     (case astype_float growth' of
        Inl e \<Rightarrow> Inl e
      | Inr floats \<Rightarrow> Inr (setitem df1 GROWTH (map Flt floats))))))))"


section \<open>The company column\<close>

fun starts_with :: "string \<Rightarrow> string \<Rightarrow> bool" where
  "starts_with [] s = True"
| "starts_with (x # xs) [] = False"
| "starts_with (x # xs) (y # ys) = (x = y \<and> starts_with xs ys)"

text \<open>\<^verbatim>\<open>needle in s\<close> on strings.\<close>

fun contains :: "string \<Rightarrow> string \<Rightarrow> bool" where
  "contains needle [] = (needle = [])"
| "contains needle (c # cs) = (starts_with needle (c # cs) \<or> contains needle cs)"

definition name_like :: "string \<Rightarrow> bool" where
  "name_like col = (contains ''name'' (lower col) \<or> contains ''company'' (lower col))"

text \<open>The loop of lines 69 to 72: the first column that matches, then \<^verbatim>\<open>break\<close>.\<close>

fun scan_columns :: "string list \<Rightarrow> string option" where
  "scan_columns [] = None"
| "scan_columns (col # cols) = (if name_like col then Some col else scan_columns cols)"

text \<open>Lines 68 to 75; \<^verbatim>\<open>not company_col\<close> holds for \<^verbatim>\<open>None\<close> and for the empty string.\<close>

definition company_col :: "string list \<Rightarrow> error + string" where
  "company_col cols =
     (case scan_columns cols of
        None \<Rightarrow> Inl SchemaError
      | Some c \<Rightarrow> if c = [] then Inl SchemaError else Inr c)"

section \<open>The views\<close>

text \<open>\<^verbatim>\<open>.head(n)\<close> is the slice \<^verbatim>\<open>[:n]\<close>; a negative \<open>n\<close> counts from the end.\<close>

definition head :: "int \<Rightarrow> 'a list \<Rightarrow> 'a list" where
  "head n xs = (if 0 \<le> n then take (nat n) xs else take (nat (int (length xs) + n)) xs)"

definition df_head :: "int \<Rightarrow> dataframe \<Rightarrow> dataframe" where
  "df_head n df = df\<lparr>rows := head n (rows df)\<rparr>"

text \<open>\<^verbatim>\<open>.unique()\<close>: the distinct values in the order of their first appearance.\<close>

definition unique :: "'a list \<Rightarrow> 'a list" where
  "unique xs = foldl (\<lambda>acc x. if x \<in> set acc then acc else acc @ [x]) [] xs"

definition isin :: "'a list \<Rightarrow> 'a list \<Rightarrow> bool list" where
  "isin col vals = map (\<lambda>c. c \<in> set vals) col"

text \<open>\<^verbatim>\<open>df[mask]\<close>: the rows where the mask is true.\<close>

definition boolean_index :: "dataframe \<Rightarrow> bool list \<Rightarrow> dataframe" where
  "boolean_index df keep = df\<lparr>rows := map fst (filter snd (zip (rows df) keep))\<rparr>"

text \<open>
  Line 96, \<^verbatim>\<open>data[data["Industry"].isin(industries)]\<close>, for the industries
  the multiselect returned; its default is \<open>unique\<close> of the column.
\<close>

definition filtered_data :: "dataframe \<Rightarrow> cell list \<Rightarrow> error + dataframe" where
  "filtered_data df industries =
     (case getitem df INDUSTRY of
        Inl e \<Rightarrow> Inl e
      | Inr col \<Rightarrow> Inr (boolean_index df (isin col industries)))"

definition isna :: "cell \<Rightarrow> bool" where
  "isna c = (c = Flt NaN)"

text \<open>
  \<^verbatim>\<open>.value_counts()\<close>: the values are counted in a hash table that keeps
  them in the order of their first appearance, \<^verbatim>\<open>nan\<close> left out
  (\<^verbatim>\<open>dropna=True\<close>); the counts are then sorted, largest first.
\<close>

fun bump :: "'a \<Rightarrow> ('a \<times> nat) list \<Rightarrow> ('a \<times> nat) list" where
  "bump k [] = [(k, 1)]"
| "bump k ((k', n) # kvs) = (if k = k' then (k', n + 1) # kvs else (k', n) # bump k kvs)"

definition value_count :: "cell list \<Rightarrow> (cell \<times> nat) list" where
  "value_count col = foldl (\<lambda>acc c. if isna c then acc else bump c acc) [] col"

text \<open>
  The sort is the library's default one, which promises no order among equal
  counts.  The model sorts by insertion and so keeps equal counts in the order
  of first appearance; only the theorems that say so depend on it.
\<close>

fun insert_desc :: "('a \<times> nat) \<Rightarrow> ('a \<times> nat) list \<Rightarrow> ('a \<times> nat) list" where
  "insert_desc x [] = [x]"
| "insert_desc x (y # ys) = (if snd y \<le> snd x then x # y # ys else y # insert_desc x ys)"

definition sort_values_desc :: "('a \<times> nat) list \<Rightarrow> ('a \<times> nat) list" where
  "sort_values_desc kvs = foldr insert_desc kvs []"

definition value_counts :: "cell list \<Rightarrow> (cell \<times> nat) list" where
  "value_counts col = sort_values_desc (value_count col)"

text \<open>Line 179: \<^verbatim>\<open>data['Headquarters'].value_counts().head(5)\<close>.\<close>

definition top_locations :: "dataframe \<Rightarrow> error + (cell \<times> nat) list" where
  "top_locations df =
     (case getitem df HEADQUARTERS of
        Inl e \<Rightarrow> Inl e
      | Inr col \<Rightarrow> Inr (head 5 (value_counts col)))"

section \<open>The script\<close>

text \<open>
  What one run hands to the page, in the order of the script: the loaded
  frame, the company column, the preview of line 89, the filtered rows of
  line 96, the ten rows of line 104 and the counts of line 179.  A failure
  anywhere ends the run.  \<open>select\<close> is the user's choice in the multiselect.
\<close>

record views =
  company :: string
  preview :: dataframe
  filtered :: dataframe
  top_10 :: dataframe
  locations :: "(cell \<times> nat) list"

definition script :: "dataframe \<Rightarrow> (cell list \<Rightarrow> cell list) \<Rightarrow> error + views" where
  "script raw select =
     (case load_data raw of
        Inl e \<Rightarrow> Inl e
      | Inr data \<Rightarrow>
     (case company_col (columns data) of
        Inl e \<Rightarrow> Inl e
      | Inr name \<Rightarrow>
     (case getitem data INDUSTRY of
        Inl e \<Rightarrow> Inl e
      | Inr col \<Rightarrow>
     (case filtered_data data (select (unique col)) of
        Inl e \<Rightarrow> Inl e
      | Inr f \<Rightarrow>
     (case top_locations data of
        Inl e \<Rightarrow> Inl e
      | Inr locs \<Rightarrow>
          Inr \<lparr>company = name, preview = df_head 10 data, filtered = f,
               top_10 = df_head 10 data, locations = locs\<rparr>)))))"

section \<open>Frames of the reader\<close>

text \<open>
  The frame of a header and the fields of each line: a line that is too short
  is padded with \<^verbatim>\<open>nan\<close>, as the reader does.
\<close>

definition mk_row :: "string list \<Rightarrow> cell list \<Rightarrow> row" where
  "mk_row cols cells name =
     (case map_of (zip cols cells) name of None \<Rightarrow> Flt NaN | Some c \<Rightarrow> c)"

definition frame :: "string list \<Rightarrow> cell list list \<Rightarrow> dataframe" where
  "frame cols lines = \<lparr>columns = cols, rows = map (mk_row cols) lines\<rparr>"

definition header :: "string list" where
  "header = [''Name'', REVENUE, GROWTH, INDUSTRY, HEADQUARTERS]"

text \<open>A file of one company, with the given revenue and growth fields.\<close>

definition one_company :: "cell \<Rightarrow> cell \<Rightarrow> dataframe" where
  "one_company revenue growth =
     frame header [[Str ''Acme'', revenue, growth, Str ''Tech'', Str ''New York'']]"

text \<open>The two companies of the specification's end-to-end scenario.\<close>

definition two_companies :: dataframe where
  "two_companies =
     frame header
       [[Str ''Acme'', Str ''1,000,000'', Str ''5.0%'', Str ''Tech'', Str ''New York''],
        [Str ''Globex'', Str ''500,000'', Str ''-2.5%'', Str ''Retail'', Str ''London'']]"

text \<open>The revenue and growth columns of the loaded frame.\<close>

definition loaded :: "dataframe \<Rightarrow> error + cell list \<times> cell list" where
  "loaded df =
     (case load_data df of
        Inl e \<Rightarrow> Inl e
      | Inr d \<Rightarrow> Inr (map (\<lambda>r. r REVENUE) (rows d), map (\<lambda>r. r GROWTH) (rows d)))"

text \<open>A file whose header has no company column.\<close>

definition unnamed_company :: dataframe where
  "unnamed_company =
     frame [''Rank'', REVENUE, GROWTH, INDUSTRY, HEADQUARTERS]
       [[IntV 1, Str ''1,000'', Str ''5%'', Str ''Tech'', Str ''Paris'']]"


text \<open>A file whose second line stops before the headquarters field.\<close>

definition no_headquarters :: dataframe where
  "no_headquarters =
     frame header
       [[Str ''Acme'', Str ''1,000'', Str ''5%'', Str ''Tech'', Str ''New York''],
        [Str ''Globex'', Str ''500'', Str ''2%'', Str ''Retail'']]"






text \<open>The number of rows of the loaded frame, and the counts of line 179 for it.\<close>

definition loaded_locations :: "dataframe \<Rightarrow> error + nat \<times> (cell \<times> nat) list" where
  "loaded_locations df =
     (case load_data df of
        Inl e \<Rightarrow> Inl e
      | Inr d \<Rightarrow>
          (case top_locations d of
             Inl e \<Rightarrow> Inl e
           | Inr locs \<Rightarrow> Inr (length (rows d), locs)))"

section \<open>A normal form of the loader\<close>

text \<open>
  \<open>load_normal\<close> says what \<open>load_data\<close> computes in terms of the frame it is
  given alone, without the frame in between: both columns are read from the
  input, and each row gets its two numbers at once.  It is proved equal to
  \<open>load_data\<close> below and serves the proofs only.
\<close>

definition revenue_column :: "dataframe \<Rightarrow> cell list" where
  "revenue_column df = map (\<lambda>r. r REVENUE) (rows df)"

definition growth_column :: "dataframe \<Rightarrow> cell list" where
  "growth_column df = map (\<lambda>r. r GROWTH) (rows df)"

definition put_numbers :: "row list \<Rightarrow> int list \<Rightarrow> pyfloat list \<Rightarrow> row list" where
  "put_numbers rs ints floats =
     map (\<lambda>(r, n, x). r(REVENUE := IntV n, GROWTH := Flt x)) (zip rs (zip ints floats))"

definition load_normal :: "dataframe \<Rightarrow> error + dataframe" where
  "load_normal df =
     (if REVENUE \<notin> set (columns df) then Inl KeyError
      else if \<not> object_dtype (revenue_column df) then Inl AttributeError
      else case astype_int (map (replace_cell CHR '','') (revenue_column df)) of
        Inl e \<Rightarrow> Inl e
      | Inr ints \<Rightarrow>
          if GROWTH \<notin> set (columns df) then Inl KeyError
          else if \<not> object_dtype (growth_column df) then Inl AttributeError
          else case astype_float (map (replace_cell CHR ''%'') (growth_column df)) of
            Inl e \<Rightarrow> Inl e
          | Inr floats \<Rightarrow> Inr (df\<lparr>rows := put_numbers (rows df) ints floats\<rparr>))"

section \<open>Evaluation rules\<close>

lemmas parse_defs = py_int_def int_literal_def split_sign_def strip_def is_space_def digit_val_def
  digits_value_def max_str_digits_def to_int64_def py_float_def is_digit_def digit_of_def
  decimal_literal_def exponent_part_def pow10_def inf_or_nan_def lower_def lower_char_def

lemmas frame_defs = frame_def mk_row_def header_def one_company_def two_companies_def
  getitem_def setitem_def str_replace_def replace_cell_def object_dtype_def is_str_def
  astype_int_def astype_float_def int_of_cell_def float_of_cell_def

section \<open>Properties of the preview and the industry filter\<close>

lemma mask_filter: "map fst (filter snd (zip xs (map p xs))) = filter p xs"
  by (induction xs) auto

lemma boolean_index_isin:
  "boolean_index df (isin (map (\<lambda>r. r name) (rows df)) vals)
     = df\<lparr>rows := filter (\<lambda>r. r name \<in> set vals) (rows df)\<rparr>"
proof -
  have "isin (map (\<lambda>r. r name) (rows df)) vals = map (\<lambda>r. r name \<in> set vals) (rows df)"
    by (simp add: isin_def)
  then show ?thesis
    by (simp add: boolean_index_def mask_filter)
qed

lemma filtered_data_filter:
  assumes "INDUSTRY \<in> set (columns df)"
  shows "filtered_data df vals
           = Inr (df\<lparr>rows := filter (\<lambda>r. r INDUSTRY \<in> set vals) (rows df)\<rparr>)"
  using assms by (simp add: filtered_data_def getitem_def boolean_index_isin)

lemma set_unique_acc:
  "set (foldl (\<lambda>acc x. if x \<in> set acc then acc else acc @ [x]) acc xs) = set acc \<union> set xs"
  by (induction xs arbitrary: acc) auto

lemma set_unique: "set (unique xs) = set xs"
  by (simp add: unique_def set_unique_acc)

text \<open>
  Claim C9.  The preview of line 89, \<^verbatim>\<open>data.head(10)\<close>, has
  \<open>min 10 (length (rows df))\<close> rows, and they are the first rows of the frame
  in their order: the frame is the preview followed by the rows after the
  tenth.  The columns are those of the frame.
\<close>

theorem preview_first_rows:
  "length (rows (df_head 10 df)) = min 10 (length (rows df))
   \<and> rows df = rows (df_head 10 df) @ drop 10 (rows df)
   \<and> columns (df_head 10 df) = columns df"
proof -
  have "rows (df_head 10 df) = take 10 (rows df)"
    by (simp add: df_head_def head_def)
  then show ?thesis
    by (simp add: df_head_def min.commute)
qed

text \<open>
  Claim C6.  For a frame with an industry column and at least one row, the
  filter of line 96 with no industry selected succeeds and keeps no row: an
  empty selection does not fall back to showing every row.
\<close>

theorem filter_no_industry:
  assumes "INDUSTRY \<in> set (columns df)" and "rows df \<noteq> []"
  shows "\<exists>d. filtered_data df [] = Inr d \<and> rows d = [] \<and> columns d = columns df"
  using assms(1) by (simp add: filtered_data_filter)

theorem filter_no_industry_witness:
  "INDUSTRY \<in> set (columns two_companies) \<and> rows two_companies \<noteq> []
   \<and> (\<exists>d. filtered_data two_companies [] = Inr d \<and> rows d = []
          \<and> columns d = columns two_companies)"
proof -
  have c: "INDUSTRY \<in> set (columns two_companies)"
    by (simp add: two_companies_def frame_def header_def)
  have r: "rows two_companies \<noteq> []"
    by (simp add: two_companies_def frame_def)
  from c r filter_no_industry [OF c r] show ?thesis
    by blast
qed

text \<open>
  Claim C7.  With every distinct value of the industry column selected (the
  default of the multiselect, \<^verbatim>\<open>data["Industry"].unique()\<close>), the filter of
  line 96 keeps as many rows as the frame has; indeed it keeps them all.
\<close>

theorem filter_all_industries:
  assumes "getitem df INDUSTRY = Inr col"
  shows "\<exists>d. filtered_data df (unique col) = Inr d
           \<and> length (rows d) = length (rows df) \<and> rows d = rows df"
proof -
  from assms have c: "INDUSTRY \<in> set (columns df)"
    and col: "col = map (\<lambda>r. r INDUSTRY) (rows df)"
    by (auto simp: getitem_def split: if_splits)
  have "filter (\<lambda>r. r INDUSTRY \<in> set (unique col)) (rows df) = rows df"
    by (simp add: set_unique col)
  with c show ?thesis
    by (simp add: filtered_data_filter)
qed

theorem filter_all_industries_witness:
  "getitem two_companies INDUSTRY = Inr [Str ''Tech'', Str ''Retail'']
   \<and> (\<exists>d. filtered_data two_companies (unique [Str ''Tech'', Str ''Retail'']) = Inr d
          \<and> length (rows d) = length (rows two_companies) \<and> rows d = rows two_companies)"
proof -
  have g: "getitem two_companies INDUSTRY = Inr [Str ''Tech'', Str ''Retail'']"
    by (simp add: frame_defs)
  from g filter_all_industries [OF g] show ?thesis
    by blast
qed

section \<open>Properties of the loader\<close>

lemma cast_all_Inr: "cast_all f xs = Inr ys \<Longrightarrow> list_all2 (\<lambda>x y. f x = Inr y) xs ys"
  by (induction xs arbitrary: ys) (auto split: sum.splits)

lemma cast_all_Inr_conv: "list_all2 (\<lambda>x y. f x = Inr y) xs ys \<Longrightarrow> cast_all f xs = Inr ys"
  by (induction xs ys rule: list_all2_induct) auto



lemma cast_all_length: "cast_all f xs = Inr ys \<Longrightarrow> length ys = length xs"
  using cast_all_Inr [of f xs ys] by (simp add: list_all2_lengthD)

lemma cast_all_nth: "cast_all f xs = Inr ys \<Longrightarrow> i < length xs \<Longrightarrow> f (xs ! i) = Inr (ys ! i)"
  using cast_all_Inr [of f xs ys] list_all2_nthD [of "\<lambda>x y. f x = Inr y" xs ys i] by simp

lemma setitem_twice:
  assumes "length ints = length rs" and "length floats = length rs"
  shows "map (\<lambda>(r, v). r(GROWTH := v))
           (zip (map (\<lambda>(r, v). r(REVENUE := v)) (zip rs (map IntV ints))) (map Flt floats))
         = put_numbers rs ints floats"
  using assms by (intro nth_equalityI) (auto simp: put_numbers_def)

lemma growth_after_revenue:
  assumes "length vs = length rs"
  shows "map (\<lambda>r. r GROWTH) (map (\<lambda>(r, v). r(REVENUE := v)) (zip rs vs)) = map (\<lambda>r. r GROWTH) rs"
  using assms by (intro nth_equalityI) auto

lemma load_data_normal: "load_data df = load_normal df"
proof (cases "astype_int (map (replace_cell CHR '','') (revenue_column df))")
  case (Inl e)
  then show ?thesis
    by (simp add: load_data_def load_normal_def getitem_def str_replace_def revenue_column_def)
next
  case (Inr ints)
  then have li: "length ints = length (rows df)"
    by (auto simp: astype_int_def revenue_column_def dest: cast_all_length)
  let ?df1 = "setitem df REVENUE (map IntV ints)"
  have r1: "rows ?df1 = map (\<lambda>(r, v). r(REVENUE := v)) (zip (rows df) (map IntV ints))"
    by (simp add: setitem_def)
  have g1: "map (\<lambda>r. r GROWTH) (rows ?df1) = growth_column df"
    unfolding r1 growth_column_def by (rule growth_after_revenue) (simp add: li)
  show ?thesis
  proof (cases "astype_float (map (replace_cell CHR ''%'') (growth_column df))")
    case (Inl e)
    with Inr g1 show ?thesis
      by (simp add: load_data_def load_normal_def getitem_def str_replace_def revenue_column_def
          Let_def setitem_def)
  next
    case fl: (Inr floats)
    then have lf: "length floats = length (rows df)"
      by (auto simp: astype_float_def growth_column_def dest: cast_all_length)
    have "setitem ?df1 GROWTH (map Flt floats) = df\<lparr>rows := put_numbers (rows df) ints floats\<rparr>"
      if "REVENUE \<in> set (columns df)" "GROWTH \<in> set (columns df)"
      using that li lf by (simp add: setitem_def setitem_twice)
    with Inr fl g1 show ?thesis
      by (simp add: load_data_def load_normal_def getitem_def str_replace_def revenue_column_def
          Let_def) (simp add: setitem_def)
  qed
qed

lemma load_rows:
  assumes "load_data df = Inr d" and "i < length (rows df)"
  shows "length (rows d) = length (rows df) \<and> columns d = columns df
         \<and> (\<exists>n x. int_of_cell (replace_cell CHR '','' ((rows df ! i) REVENUE)) = Inr n
                \<and> float_of_cell (replace_cell CHR ''%'' ((rows df ! i) GROWTH)) = Inr x
                \<and> rows d ! i = (rows df ! i)(REVENUE := IntV n, GROWTH := Flt x))"
proof -
  from assms(1) have "load_normal df = Inr d"
    by (simp add: load_data_normal)
  then obtain ints floats where
    ai: "astype_int (map (replace_cell CHR '','') (revenue_column df)) = Inr ints" and
    af: "astype_float (map (replace_cell CHR ''%'') (growth_column df)) = Inr floats" and
    d: "d = df\<lparr>rows := put_numbers (rows df) ints floats\<rparr>"
    by (auto simp: load_normal_def split: if_splits sum.splits)
  from ai have li: "length ints = length (rows df)"
    by (auto simp: astype_int_def revenue_column_def dest: cast_all_length)
  from af have lf: "length floats = length (rows df)"
    by (auto simp: astype_float_def growth_column_def dest: cast_all_length)
  from ai assms(2) have ni: "int_of_cell (replace_cell CHR '','' ((rows df ! i) REVENUE)) = Inr (ints ! i)"
    using cast_all_nth [of int_of_cell "map (replace_cell CHR '','') (revenue_column df)" ints i]
    by (simp add: astype_int_def revenue_column_def)
  from af assms(2) have nf: "float_of_cell (replace_cell CHR ''%'' ((rows df ! i) GROWTH)) = Inr (floats ! i)"
    using cast_all_nth [of float_of_cell "map (replace_cell CHR ''%'') (growth_column df)" floats i]
    by (simp add: astype_float_def growth_column_def)
  have "rows d ! i = (rows df ! i)(REVENUE := IntV (ints ! i), GROWTH := Flt (floats ! i))"
    using d li lf assms(2) by (simp add: put_numbers_def)
  moreover have "length (rows d) = length (rows df)" "columns d = columns df"
    using d li lf by (simp_all add: put_numbers_def)
  ultimately show ?thesis
    using ni nf by blast
qed

lemma digit_val_Some: "digit_val c = Some d \<Longrightarrow> 0 \<le> d \<and> d \<le> 9 \<and> d = digit_of c \<and> is_digit c"
  by (auto simp: digit_val_def digit_of_def is_digit_def Let_def split: if_splits)


lemma digit_run_digits: "digit_run s = Some ds \<Longrightarrow> list_all (\<lambda>d. 0 \<le> d \<and> d \<le> 9) ds"
proof (induction s arbitrary: ds rule: digit_run.induct)
  case 1
  then show ?case by simp
next
  case (2 c)
  then show ?case by (auto dest: digit_val_Some)
next
  case (3 c c' cs)
  from "3.prems" obtain d ds' where d: "digit_val c = Some d" and ds: "ds = d # ds'"
    and r: "(if c' = CHR ''_'' then digit_run cs else digit_run (c' # cs)) = Some ds'"
    by (auto split: option.splits if_splits)
  from r "3.IH" d have "list_all (\<lambda>d. 0 \<le> d \<and> d \<le> 9) ds'"
    by (auto split: if_splits)
  with d ds show ?case by (auto dest: digit_val_Some)
qed

lemma digits_value_acc:
  "0 \<le> (a::int) \<Longrightarrow> list_all (\<lambda>d. 0 \<le> d \<and> d \<le> 9) ds
     \<Longrightarrow> 0 \<le> foldl (\<lambda>a d. 10 * a + d) a ds
         \<and> foldl (\<lambda>a d. 10 * a + d) a ds < (a + 1) * 10 ^ length ds"
proof (induction ds arbitrary: a)
  case Nil
  then show ?case by simp
next
  case (Cons d ds)
  then have d: "0 \<le> d" "d \<le> 9" and r: "list_all (\<lambda>d. 0 \<le> d \<and> d \<le> 9) ds"
    by simp_all
  from Cons.prems(1) d have a': "0 \<le> 10 * a + d" by simp
  from Cons.IH [OF a' r]
  have ih: "0 \<le> foldl (\<lambda>a d. 10 * a + d) (10 * a + d) ds"
    "foldl (\<lambda>a d. 10 * a + d) (10 * a + d) ds < (10 * a + d + 1) * 10 ^ length ds"
    by simp_all
  have "(10 * a + d + 1) * 10 ^ length ds \<le> (10 * a + 10) * (10::int) ^ length ds"
    using d by (intro mult_right_mono) simp_all
  also have "\<dots> = (a + 1) * 10 ^ length (d # ds)"
    by (simp add: algebra_simps)
  finally have le: "(10 * a + d + 1) * 10 ^ length ds \<le> (a + 1) * 10 ^ length (d # ds)" .
  have "foldl (\<lambda>a d. 10 * a + d) (10 * a + d) ds < (a + 1) * 10 ^ length (d # ds)"
    by (rule less_le_trans [OF ih(2) le])
  with ih(1) show ?case
    by simp
qed

lemma digits_value_bounds:
  "list_all (\<lambda>d. 0 \<le> d \<and> d \<le> 9) ds \<Longrightarrow> 0 \<le> digits_value ds \<and> digits_value ds < 10 ^ length ds"
  using digits_value_acc [of 0 ds] by (simp add: digits_value_def)

lemma set_strip: "set (strip s) \<subseteq> set s"
proof -
  have "set (strip s) \<subseteq> set (dropWhile is_space s)"
    unfolding strip_def using set_dropWhileD [of _ is_space "rev (dropWhile is_space s)"] by auto
  also have "\<dots> \<subseteq> set s"
    using set_dropWhileD [of _ is_space s] by auto
  finally show ?thesis .
qed

lemma split_sign_minus: "split_sign u = (sg, body) \<Longrightarrow> CHR ''-'' \<notin> set u \<Longrightarrow> sg = 1"
  by (auto simp: split_sign_def split: list.splits if_splits)

lemma py_int_nonneg:
  assumes "py_int s = Inr n" and "CHR ''-'' \<notin> set s"
  shows "0 \<le> n"
proof -
  from assms(1) obtain sg ds where lit: "int_literal s = Some (sg, ds)" and n: "n = sg * digits_value ds"
    by (auto simp: py_int_def split: option.splits if_splits)
  from lit obtain body where sp: "split_sign (strip s) = (sg, body)" and dr: "digit_run body = Some ds"
    by (auto simp: int_literal_def split: prod.splits)
  from assms(2) set_strip [of s] have "CHR ''-'' \<notin> set (strip s)" by auto
  with sp have "sg = 1" by (rule split_sign_minus)
  moreover from dr have "0 \<le> digits_value ds"
    using digits_value_bounds digit_run_digits by blast
  ultimately show ?thesis using n by simp
qed

lemma to_int64_range: "to_int64 m = Inr n \<Longrightarrow> n = m \<and> - (2 ^ 63) \<le> n \<and> n < 2 ^ 63"
  by (auto simp: to_int64_def split: if_splits)

lemma int_of_cell_Inr:
  "int_of_cell c = Inr n \<Longrightarrow> \<exists>s. c = Some s \<and> py_int s = Inr n \<and> - (2 ^ 63) \<le> n \<and> n < 2 ^ 63"
  by (auto simp: int_of_cell_def split: option.splits sum.splits dest: to_int64_range)

lemma replace_cell_Some: "replace_cell ch c = Some u \<Longrightarrow> \<exists>s. c = Str s \<and> u = filter (\<lambda>x. x \<noteq> ch) s"
  by (auto simp: replace_cell_def split: cell.splits)


text \<open>
  White space above U+007E is skipped like a blank: the revenue text
  \<^verbatim>\<open>1,000\<close> followed by U+00A0 is an integer literal, 1000, and so is
  \<^verbatim>\<open>5\<close> followed by U+0085; U+001F is not skipped.
\<close>

lemma py_int_nbsp:
  "py_int (filter (\<lambda>x. x \<noteq> CHR '','') (''1,000'' @ [CHR 0xA0])) = Inr 1000
   \<and> py_int (''5'' @ [CHR 0x85]) = Inr 5
   \<and> py_int (''5'' @ [CHR 0x1F]) = Inl ValueError"
  by (simp add: parse_defs)





text \<open>
  The revenue of a loaded frame can be negative: nothing in \<open>load_data\<close> looks
  at the sign, and the revenue text \<^verbatim>\<open>-5,000\<close>, which the reader keeps as text
  for its comma, loads as the integer \<open>- 5000\<close>.
\<close>

theorem negative_revenue_counterexample:
  "loaded (one_company (Str ''-5,000'') (Str ''5%'')) = Inr ([IntV (- 5000)], [Flt (Fin 5)])"
  by (simp add: loaded_def load_data_normal load_normal_def revenue_column_def growth_column_def
      put_numbers_def frame_defs parse_defs)

text \<open>
  Claim C5, as amended.  A loaded frame has the rows of the input, and in each
  of them the revenue, which was text in the input, is an integer of the
  \<^verbatim>\<open>int64\<close> range; it is not negative unless that text holds a minus sign.
\<close>

theorem revenue_is_int64:
  assumes "load_data df = Inr d" and "i < length (rows df)"
  shows "length (rows d) = length (rows df)
         \<and> (\<exists>s n. (rows df ! i) REVENUE = Str s \<and> (rows d ! i) REVENUE = IntV n
                \<and> - (2 ^ 63) \<le> n \<and> n < 2 ^ 63 \<and> (CHR ''-'' \<in> set s \<or> 0 \<le> n))"
proof -
  from load_rows [OF assms] obtain n x where
    len: "length (rows d) = length (rows df)" and
    n: "int_of_cell (replace_cell CHR '','' ((rows df ! i) REVENUE)) = Inr n" and
    r: "rows d ! i = (rows df ! i)(REVENUE := IntV n, GROWTH := Flt x)"
    by blast
  from n obtain u where u: "replace_cell CHR '','' ((rows df ! i) REVENUE) = Some u"
    and p: "py_int u = Inr n" and rng: "- (2 ^ 63) \<le> n" "n < 2 ^ 63"
    using int_of_cell_Inr by blast
  from u obtain s where s: "(rows df ! i) REVENUE = Str s" and us: "u = filter (\<lambda>x. x \<noteq> CHR '','') s"
    using replace_cell_Some by blast
  have "CHR ''-'' \<in> set s \<or> 0 \<le> n"
  proof (cases "CHR ''-'' \<in> set s")
    case True
    then show ?thesis by simp
  next
    case False
    then have "CHR ''-'' \<notin> set u" by (simp add: us)
    with p have "0 \<le> n" by (rule py_int_nonneg)
    then show ?thesis by simp
  qed
  moreover from r have "(rows d ! i) REVENUE = IntV n" by simp
  ultimately show ?thesis
    using len s rng by blast
qed

theorem revenue_is_int64_witness:
  "\<exists>d. load_data two_companies = Inr d \<and> 0 < length (rows two_companies)
     \<and> length (rows d) = length (rows two_companies)
     \<and> (\<exists>s n. (rows two_companies ! 0) REVENUE = Str s \<and> (rows d ! 0) REVENUE = IntV n
            \<and> - (2 ^ 63) \<le> n \<and> n < 2 ^ 63 \<and> (CHR ''-'' \<in> set s \<or> 0 \<le> n))"
proof -
  obtain d where l: "load_data two_companies = Inr d"
    by (simp add: load_data_normal load_normal_def revenue_column_def growth_column_def
        put_numbers_def frame_defs parse_defs)
  have i: "0 < length (rows two_companies)"
    by (simp add: two_companies_def frame_def)
  from l i revenue_is_int64 [OF l i] show ?thesis by blast
qed

















section \<open>Properties of the company column\<close>

lemma starts_with_iff: "starts_with n h = (\<exists>s. h = n @ s)"
  by (induction n h rule: starts_with.induct) auto

lemma contains_iff: "contains n h = (\<exists>p s. h = p @ n @ s)"
proof (induction h)
  case Nil
  then show ?case by auto
next
  case (Cons c cs)
  show ?case
  proof
    assume "contains n (c # cs)"
    then consider "starts_with n (c # cs)" | "contains n cs" by auto
    then show "\<exists>p s. c # cs = p @ n @ s"
    proof cases
      case 1
      then obtain s where "c # cs = n @ s" by (auto simp: starts_with_iff)
      then have "c # cs = [] @ n @ s" by simp
      then show ?thesis by blast
    next
      case 2
      with Cons obtain p s where "cs = p @ n @ s" by auto
      then have "c # cs = (c # p) @ n @ s" by simp
      then show ?thesis by blast
    qed
  next
    assume "\<exists>p s. c # cs = p @ n @ s"
    then obtain p s where ps: "c # cs = p @ n @ s" by auto
    show "contains n (c # cs)"
    proof (cases p)
      case Nil
      with ps have "starts_with n (c # cs)" by (auto simp: starts_with_iff)
      then show ?thesis by simp
    next
      case (Cons a p')
      with ps have "cs = p' @ n @ s" by simp
      with Cons.IH have "contains n cs" by blast
      then show ?thesis by simp
    qed
  qed
qed

lemma name_like_nonempty: "name_like c \<Longrightarrow> c \<noteq> []"
  by (auto simp: name_like_def lower_def)

lemma scan_columns_Some:
  "(scan_columns cols = Some c)
     = (\<exists>pre post. cols = pre @ c # post \<and> name_like c \<and> \<not> list_ex name_like pre)"
proof (induction cols)
  case Nil
  then show ?case by simp
next
  case (Cons x xs)
  show ?case
  proof (cases "name_like x")
    case True
    have "(\<exists>pre post. x # xs = pre @ c # post \<and> name_like c \<and> \<not> list_ex name_like pre) = (x = c)"
    proof
      assume "\<exists>pre post. x # xs = pre @ c # post \<and> name_like c \<and> \<not> list_ex name_like pre"
      then obtain pre post where d: "x # xs = pre @ c # post" and n: "\<not> list_ex name_like pre"
        by auto
      show "x = c"
      proof (cases pre)
        case Nil
        with d show ?thesis by simp
      next
        case (Cons a pre')
        with d have "a = x" by simp
        with Cons n True show ?thesis by simp
      qed
    next
      assume "x = c"
      with True have "x # xs = [] @ c # xs \<and> name_like c \<and> \<not> list_ex name_like []" by simp
      then show "\<exists>pre post. x # xs = pre @ c # post \<and> name_like c \<and> \<not> list_ex name_like pre"
        by blast
    qed
    with True show ?thesis by auto
  next
    case False
    have "(\<exists>pre post. x # xs = pre @ c # post \<and> name_like c \<and> \<not> list_ex name_like pre)
            = (\<exists>pre post. xs = pre @ c # post \<and> name_like c \<and> \<not> list_ex name_like pre)"
    proof
      assume "\<exists>pre post. x # xs = pre @ c # post \<and> name_like c \<and> \<not> list_ex name_like pre"
      then obtain pre post where d: "x # xs = pre @ c # post" and c: "name_like c"
        and n: "\<not> list_ex name_like pre"
        by auto
      show "\<exists>pre post. xs = pre @ c # post \<and> name_like c \<and> \<not> list_ex name_like pre"
      proof (cases pre)
        case Nil
        with d c False show ?thesis by simp
      next
        case (Cons a pre')
        with d n c have "xs = pre' @ c # post \<and> name_like c \<and> \<not> list_ex name_like pre'" by simp
        then show ?thesis by blast
      qed
    next
      assume "\<exists>pre post. xs = pre @ c # post \<and> name_like c \<and> \<not> list_ex name_like pre"
      then obtain pre post where "xs = pre @ c # post" "name_like c" "\<not> list_ex name_like pre"
        by auto
      with False have "x # xs = (x # pre) @ c # post \<and> name_like c \<and> \<not> list_ex name_like (x # pre)"
        by simp
      then show "\<exists>pre post. x # xs = pre @ c # post \<and> name_like c \<and> \<not> list_ex name_like pre"
        by blast
    qed
    with False Cons.IH show ?thesis by simp
  qed
qed

lemma scan_columns_None: "(scan_columns cols = None) = (\<not> list_ex name_like cols)"
  by (induction cols) auto

lemma scan_columns_name_like: "scan_columns cols = Some c \<Longrightarrow> name_like c"
  by (simp add: scan_columns_Some) blast

lemma company_col_Inr: "(company_col cols = Inr c) = (scan_columns cols = Some c)"
  by (auto simp: company_col_def split: option.splits dest: scan_columns_name_like name_like_nonempty)

lemma company_col_Inl: "(company_col cols = Inl e) = (e = SchemaError \<and> scan_columns cols = None)"
  by (auto simp: company_col_def split: option.splits dest: scan_columns_name_like name_like_nonempty)

text \<open>
  Claim C4.  The resolution of lines 68 to 75 returns a column \<open>c\<close> exactly
  when \<open>c\<close> stands in the header after columns none of which matches, and
  itself matches; it stops with the schema error exactly when no column
  matches, and one of the two happens.  A column matches when its lowercased
  name contains \<^verbatim>\<open>name\<close> or \<^verbatim>\<open>company\<close>.  After a successful load with no
  matching column the script ends with the schema error, and hands over no
  view.
\<close>

theorem company_col_first_match:
  "(company_col cols = Inr c)
      = (\<exists>pre post. cols = pre @ c # post \<and> name_like c \<and> \<not> list_ex name_like pre)
   \<and> (company_col cols = Inl SchemaError) = (\<not> list_ex name_like cols)
   \<and> (list_ex name_like cols \<or> company_col cols = Inl SchemaError)
   \<and> name_like col
        = ((\<exists>p s. lower col = p @ ''name'' @ s) \<or> (\<exists>p s. lower col = p @ ''company'' @ s))
   \<and> (load_data raw = Inr data \<and> \<not> list_ex name_like (columns data)
        \<longrightarrow> script raw select = Inl SchemaError)"
proof -
  have a: "(company_col cols = Inr c)
      = (\<exists>pre post. cols = pre @ c # post \<and> name_like c \<and> \<not> list_ex name_like pre)"
    by (simp add: company_col_Inr scan_columns_Some)
  have b: "(company_col cols = Inl SchemaError) = (\<not> list_ex name_like cols)"
    by (simp add: company_col_Inl scan_columns_None)
  have c: "name_like col
        = ((\<exists>p s. lower col = p @ ''name'' @ s) \<or> (\<exists>p s. lower col = p @ ''company'' @ s))"
    by (simp only: name_like_def contains_iff)
  have d: "load_data raw = Inr data \<and> \<not> list_ex name_like (columns data)
        \<longrightarrow> script raw select = Inl SchemaError"
  proof
    assume h: "load_data raw = Inr data \<and> \<not> list_ex name_like (columns data)"
    then have "company_col (columns data) = Inl SchemaError"
      by (simp add: company_col_Inl scan_columns_None)
    with h show "script raw select = Inl SchemaError"
      by (simp add: script_def)
  qed
  from a b c d show ?thesis by blast
qed

theorem company_col_first_match_witness:
  "company_col [''Rank'', ''Company NAME'', ''name''] = Inr ''Company NAME''
   \<and> company_col (columns unnamed_company) = Inl SchemaError
   \<and> script unnamed_company id = Inl SchemaError"
proof -
  have n1: "name_like ''Company NAME''" and n2: "\<not> list_ex name_like [''Rank'']"
    by (simp_all add: name_like_def lower_def lower_char_def)
  have "[''Rank'', ''Company NAME'', ''name''] = [''Rank''] @ ''Company NAME'' # [''name'']
          \<and> name_like ''Company NAME'' \<and> \<not> list_ex name_like [''Rank'']"
    using n1 n2 by simp
  then have ex: "\<exists>pre post. [''Rank'', ''Company NAME'', ''name''] = pre @ ''Company NAME'' # post
          \<and> name_like ''Company NAME'' \<and> \<not> list_ex name_like pre"
    by blast
  have a: "company_col [''Rank'', ''Company NAME'', ''name''] = Inr ''Company NAME''"
    using company_col_first_match
      [of "[''Rank'', ''Company NAME'', ''name'']" "''Company NAME''" "[]" unnamed_company
        unnamed_company id] ex
    by blast
  obtain data where l: "load_data unnamed_company = Inr data"
    and cs: "columns data = columns unnamed_company"
    by (simp add: load_data_normal load_normal_def revenue_column_def growth_column_def
        put_numbers_def unnamed_company_def frame_defs parse_defs)
  have n3: "\<not> list_ex name_like (columns unnamed_company)"
    by (simp add: unnamed_company_def frame_def name_like_def lower_def lower_char_def)
  have b: "company_col (columns unnamed_company) = Inl SchemaError"
    using company_col_first_match
      [of "columns unnamed_company" "[]" "[]" unnamed_company unnamed_company id] n3
    by blast
  have c: "script unnamed_company id = Inl SchemaError"
    using company_col_first_match [of "[]" "[]" "[]" unnamed_company data id] l n3 cs
    by simp
  from a b c show ?thesis by blast
qed

section \<open>Properties of the headquarters counts\<close>

lemma distinct_unique_acc:
  "distinct acc \<Longrightarrow> distinct (foldl (\<lambda>acc x. if x \<in> set acc then acc else acc @ [x]) acc xs)"
  by (induction xs arbitrary: acc) auto

lemma distinct_unique: "distinct (unique xs)"
  by (simp add: unique_def distinct_unique_acc)

lemma bump_sum: "sum_list (map snd (bump k kvs)) = Suc (sum_list (map snd kvs))"
  by (induction k kvs rule: bump.induct) auto

lemma bump_keys:
  "map fst (bump k kvs) = (if k \<in> set (map fst kvs) then map fst kvs else map fst kvs @ [k])"
  by (induction k kvs rule: bump.induct) auto

lemma value_count_acc_sum:
  "sum_list (map snd (foldl (\<lambda>acc c. if isna c then acc else bump c acc) acc col))
     = sum_list (map snd acc) + length (filter (\<lambda>c. \<not> isna c) col)"
  by (induction col arbitrary: acc) (auto simp: bump_sum)

lemma value_count_acc_keys:
  "map fst (foldl (\<lambda>acc c. if isna c then acc else bump c acc) acc col)
     = foldl (\<lambda>a x. if x \<in> set a then a else a @ [x]) (map fst acc) (filter (\<lambda>c. \<not> isna c) col)"
proof (induction col arbitrary: acc)
  case Nil
  then show ?case by simp
next
  case (Cons c col)
  show ?case
  proof (cases "isna c")
    case True
    with Cons.IH [of acc] show ?thesis by simp
  next
    case False
    with Cons.IH [of "bump c acc"] show ?thesis
      by (simp add: bump_keys)
  qed
qed

lemma value_count_sum:
  "sum_list (map snd (value_count col)) = length (filter (\<lambda>c. \<not> isna c) col)"
  using value_count_acc_sum [of "[]" col] by (simp add: value_count_def)

lemma value_count_keys: "map fst (value_count col) = unique (filter (\<lambda>c. \<not> isna c) col)"
  using value_count_acc_keys [of "[]" col] by (simp add: value_count_def unique_def)

lemma value_count_length:
  "length (value_count col) = card (set (filter (\<lambda>c. \<not> isna c) col))"
proof -
  have "length (value_count col) = length (map fst (value_count col))"
    by simp
  also have "\<dots> = length (unique (filter (\<lambda>c. \<not> isna c) col))"
    by (simp only: value_count_keys)
  also have "\<dots> = card (set (unique (filter (\<lambda>c. \<not> isna c) col)))"
    by (simp add: distinct_card distinct_unique)
  finally show ?thesis
    by (simp add: set_unique)
qed

lemma insert_desc_length: "length (insert_desc x ys) = Suc (length ys)"
  by (induction ys) auto

lemma insert_desc_sum: "sum_list (map snd (insert_desc x ys)) = snd x + sum_list (map snd ys)"
  by (induction ys) auto

lemma sort_values_desc_length: "length (sort_values_desc kvs) = length kvs"
  by (induction kvs) (auto simp: sort_values_desc_def insert_desc_length)

lemma sort_values_desc_sum: "sum_list (map snd (sort_values_desc kvs)) = sum_list (map snd kvs)"
  by (induction kvs) (auto simp: sort_values_desc_def insert_desc_sum)

lemma length_head_nat: "length (head (int k) xs) \<le> k"
  by (simp add: head_def)

lemma head_all: "length xs \<le> k \<Longrightarrow> head (int k) xs = xs"
  by (simp add: head_def)

text \<open>
  The counts come largest first, whatever the sort does with equal counts.
\<close>

lemma set_insert_desc: "set (insert_desc x ys) = insert x (set ys)"
  by (induction ys) auto

lemma sorted_insert_desc:
  "sorted_wrt (\<lambda>a b. snd b \<le> snd a) ys \<Longrightarrow> sorted_wrt (\<lambda>a b. snd b \<le> snd a) (insert_desc x ys)"
  by (induction ys) (auto simp: set_insert_desc)

lemma value_counts_descending: "sorted_wrt (\<lambda>a b. snd b \<le> snd a) (value_counts col)"
proof -
  have "sorted_wrt (\<lambda>a b. snd b \<le> snd a) (sort_values_desc kvs)" for kvs :: "(cell \<times> nat) list"
    by (induction kvs) (auto simp: sort_values_desc_def sorted_insert_desc)
  then show ?thesis
    by (simp add: value_counts_def)
qed

lemmas count_defs = value_counts_def sort_values_desc_def value_count_def isna_def
  top_locations_def head_def

text \<open>
  The counts of line 179 leave out the rows whose headquarters field is
  empty: of the two rows of this file one has none, and the counts sum to 1.
\<close>

theorem missing_headquarters_counterexample:
  "loaded_locations no_headquarters = Inr (2, [(Str ''New York'', 1)])"
  by (simp add: loaded_locations_def load_data_normal load_normal_def revenue_column_def
      growth_column_def put_numbers_def no_headquarters_def frame_defs parse_defs count_defs)

text \<open>
  Claim C8, as amended.  For a frame with a headquarters column,
  \<open>top_locations\<close> is the first five of the counts; the first \<open>k\<close> counts are
  at most \<open>k\<close> pairs; and when \<open>k\<close> is at least the number of distinct
  headquarters values, they sum to the number of rows whose headquarters is
  not missing, which is every row when none is missing.
\<close>

theorem location_counts:
  assumes "getitem df HEADQUARTERS = Inr col"
  shows "top_locations df = Inr (head 5 (value_counts col))
         \<and> length (head (int k) (value_counts col)) \<le> k
         \<and> (card (set (filter (\<lambda>c. \<not> isna c) col)) \<le> k
              \<longrightarrow> sum_list (map snd (head (int k) (value_counts col)))
                    = length (filter (\<lambda>r. \<not> isna (r HEADQUARTERS)) (rows df)))
         \<and> (\<not> list_ex isna col
              \<longrightarrow> length (filter (\<lambda>r. \<not> isna (r HEADQUARTERS)) (rows df)) = length (rows df))"
proof -
  from assms have col: "col = map (\<lambda>r. r HEADQUARTERS) (rows df)"
    by (auto simp: getitem_def split: if_splits)
  have a: "top_locations df = Inr (head 5 (value_counts col))"
    using assms by (simp add: top_locations_def)
  have b: "length (head (int k) (value_counts col)) \<le> k"
    by (rule length_head_nat)
  have n: "length (filter (\<lambda>c. \<not> isna c) col)
             = length (filter (\<lambda>r. \<not> isna (r HEADQUARTERS)) (rows df))"
    by (simp add: col filter_map comp_def)
  have c: "card (set (filter (\<lambda>c. \<not> isna c) col)) \<le> k
              \<longrightarrow> sum_list (map snd (head (int k) (value_counts col)))
                    = length (filter (\<lambda>r. \<not> isna (r HEADQUARTERS)) (rows df))"
  proof
    assume "card (set (filter (\<lambda>c. \<not> isna c) col)) \<le> k"
    then have "length (value_counts col) \<le> k"
      by (simp add: value_counts_def sort_values_desc_length value_count_length)
    then have "head (int k) (value_counts col) = value_counts col"
      by (rule head_all)
    then show "sum_list (map snd (head (int k) (value_counts col)))
                 = length (filter (\<lambda>r. \<not> isna (r HEADQUARTERS)) (rows df))"
      by (simp add: value_counts_def sort_values_desc_sum value_count_sum n)
  qed
  have d: "\<not> list_ex isna col
              \<longrightarrow> length (filter (\<lambda>r. \<not> isna (r HEADQUARTERS)) (rows df)) = length (rows df)"
  proof
    assume "\<not> list_ex isna col"
    then have "filter (\<lambda>c. \<not> isna c) col = col"
      by (simp add: list_ex_iff)
    then have "length (filter (\<lambda>c. \<not> isna c) col) = length col"
      by simp
    moreover have "length col = length (rows df)"
      by (simp add: col)
    ultimately show "length (filter (\<lambda>r. \<not> isna (r HEADQUARTERS)) (rows df)) = length (rows df)"
      using n by simp
  qed
  from a b c d show ?thesis by blast
qed

theorem location_counts_witness:
  "getitem two_companies HEADQUARTERS = Inr [Str ''New York'', Str ''London'']
   \<and> card (set (filter (\<lambda>c. \<not> isna c) [Str ''New York'', Str ''London''])) \<le> 5
   \<and> \<not> list_ex isna [Str ''New York'', Str ''London'']
   \<and> top_locations two_companies = Inr [(Str ''New York'', 1), (Str ''London'', 1)]
   \<and> length (head (int 5) (value_counts [Str ''New York'', Str ''London''])) \<le> 5
   \<and> sum_list (map snd (head (int 5) (value_counts [Str ''New York'', Str ''London''])))
        = length (rows two_companies)"
proof -
  have g: "getitem two_companies HEADQUARTERS = Inr [Str ''New York'', Str ''London'']"
    by (simp add: frame_defs)
  have c: "card (set (filter (\<lambda>c. \<not> isna c) [Str ''New York'', Str ''London''])) \<le> 5"
    and m: "\<not> list_ex isna [Str ''New York'', Str ''London'']"
    by (simp_all add: isna_def)
  have v: "head 5 (value_counts [Str ''New York'', Str ''London''])
             = [(Str ''New York'', 1), (Str ''London'', 1)]"
    by (simp add: count_defs)
  from location_counts [OF g, of 5] c m v show ?thesis
    using g by simp
qed

end
